theory Spec2Isabelle
  imports Main "HOL-Library.AList"
begin

section \<open>Parsed JSON values and the Python operations the scripts apply to them\<close>

text \<open>
  Every script reads its input with \<^verbatim>\<open>json.load\<close>, so the data the code works on are
  Python values built from \<^verbatim>\<open>None\<close>, \<^verbatim>\<open>bool\<close>, \<^verbatim>\<open>int\<close>, \<^verbatim>\<open>float\<close>, \<^verbatim>\<open>str\<close>,
  \<^verbatim>\<open>list\<close> and \<^verbatim>\<open>dict\<close> (string keys).  Python integers are unbounded (\<open>int\<close>).
  A float is kept as the number it denotes: \<open>FFinite m e\<close> stands for \<open>m * 2 ^ e\<close>,
  \<open>FInf\<close> for the two infinities (\<^verbatim>\<open>json.load\<close> accepts \<^verbatim>\<open>Infinity\<close> and maps
  \<^verbatim>\<open>1e999\<close> to it) and \<open>FNaN\<close> for not-a-number.  Strings are lists of 8-bit characters
  read as the code points 0 to 255.  A dict is an association list in insertion order.
\<close>

datatype pyfloat = FFinite int int | FInf bool | FNaN

datatype json =
    JNull
  | JBool bool
  | JInt int
  | JFloat pyfloat
  | JStr string
  | JList "json list"
  | JObj "(string \<times> json) list"

datatype pyerror =
    TypeError | ValueError | AttributeError | KeyError | OverflowError | OSError

text \<open>\<^verbatim>\<open>d.get(k, default)\<close> and \<^verbatim>\<open>d.get(k)\<close> (default \<^verbatim>\<open>None\<close>) on a dict.\<close>

definition dict_get :: "(string \<times> json) list \<Rightarrow> string \<Rightarrow> json \<Rightarrow> json" where
  "dict_get d k dflt = (case map_of d k of Some v \<Rightarrow> v | None \<Rightarrow> dflt)"

text \<open>Python truth value of a parsed JSON value (\<^verbatim>\<open>if x:\<close>, \<^verbatim>\<open>a and b\<close>).\<close>

fun float_truthy :: "pyfloat \<Rightarrow> bool" where
  "float_truthy (FFinite m e) = (m \<noteq> 0)"
| "float_truthy (FInf s) = True"
| "float_truthy FNaN = True"

fun truthy :: "json \<Rightarrow> bool" where
  "truthy JNull = False"
| "truthy (JBool b) = b"
| "truthy (JInt n) = (n \<noteq> 0)"
| "truthy (JFloat f) = float_truthy f"
| "truthy (JStr s) = (s \<noteq> [])"
| "truthy (JList xs) = (xs \<noteq> [])"
| "truthy (JObj d) = (d \<noteq> [])"

subsection \<open>The builtin \<^verbatim>\<open>int(x)\<close>\<close>

text \<open>
  \<^verbatim>\<open>int(s)\<close> on a string (base 10): surrounding whitespace is skipped, then an optional sign,
  then decimal digits in which single underscores may separate digits; anything else is a
  \<^verbatim>\<open>ValueError\<close>.  Whitespace is tab, newline, vertical tab, form feed, carriage return
  and space, and of the code points from 128 to 255 the two that Python turns into a
  space before parsing (0x85 and 0xA0).  The limit on the number of digits that recent
  Python versions put on this conversion is not part of the model.
\<close>

definition int_space :: "char \<Rightarrow> bool" where
  "int_space c = (let n = of_char c :: int in (9 \<le> n \<and> n \<le> 13) \<or> n = 32 \<or> n = 133 \<or> n = 160)"

definition is_ascii_digit :: "char \<Rightarrow> bool" where
  "is_ascii_digit c = (let n = of_char c :: int in 48 \<le> n \<and> n \<le> 57)"

definition digit_val :: "char \<Rightarrow> int" where
  "digit_val c = of_char c - 48"

text \<open>
  \<open>parse_digits acc after_digit cs\<close>: the digits read so far have the value \<open>acc\<close>;
  \<open>after_digit\<close> says that the previous character was a digit (so an underscore or the end
  may follow).  Trailing whitespace must reach the end of the string.
\<close>

fun parse_digits :: "int \<Rightarrow> bool \<Rightarrow> string \<Rightarrow> int option" where
  "parse_digits acc after_digit [] = (if after_digit then Some acc else None)"
| "parse_digits acc after_digit (c # cs) =
     (if is_ascii_digit c then parse_digits (acc * 10 + digit_val c) True cs
      else if c = CHR ''_'' \<and> after_digit then
        (case cs of
           [] \<Rightarrow> None
         | d # ds \<Rightarrow> if is_ascii_digit d then parse_digits acc False cs else None)
      else if int_space c \<and> after_digit then
        (if list_all int_space cs then Some acc else None)
      else None)"

definition int_of_str :: "string \<Rightarrow> int option" where
  "int_of_str s =
     (case dropWhile int_space s of
        [] \<Rightarrow> None
      | c # cs \<Rightarrow>
          if c = CHR ''-'' then map_option uminus (parse_digits 0 False cs)
          else if c = CHR ''+'' then parse_digits 0 False cs
          else parse_digits 0 False (c # cs))"

text \<open>\<^verbatim>\<open>int(f)\<close> on a float truncates towards zero; the infinities and NaN raise.\<close>

fun int_of_float :: "pyfloat \<Rightarrow> pyerror + int" where
  "int_of_float (FFinite m e) =
     Inr (if 0 \<le> e then m * 2 ^ nat e else sgn m * (\<bar>m\<bar> div 2 ^ nat (- e)))"
| "int_of_float (FInf s) = Inl OverflowError"
| "int_of_float FNaN = Inl ValueError"

fun py_int :: "json \<Rightarrow> pyerror + int" where
  "py_int JNull = Inl TypeError"
| "py_int (JBool b) = Inr (if b then 1 else 0)"
| "py_int (JInt n) = Inr n"
| "py_int (JFloat f) = int_of_float f"
| "py_int (JStr s) = (case int_of_str s of Some n \<Rightarrow> Inr n | None \<Rightarrow> Inl ValueError)"
| "py_int (JList xs) = Inl TypeError"
| "py_int (JObj d) = Inl TypeError"

section \<open>Merger (\<^verbatim>\<open>scripts/merge_data.py\<close>)\<close>

text \<open>
  \<^verbatim>\<open>self.merged_data\<close>: the three accumulators and the two counters of its
  \<^verbatim>\<open>metadata\<close>.  The \<^verbatim>\<open>merged_at\<close> timestamp is the wall clock and is left out.
\<close>

record merged_data =
  streaming_history :: "json list"
  playlists :: "json list"
  user_data :: "(string \<times> json) list"
  files_processed :: nat
  total_streams :: nat

definition init_merged_data :: merged_data where
  "init_merged_data =
     \<lparr>streaming_history = [], playlists = [], user_data = [],
      files_processed = 0, total_streams = 0\<rparr>"

text \<open>
  A file the scripts open: its path and what \<^verbatim>\<open>json.load(open(path))\<close> gives, the parsed
  document or the exception raised by opening, decoding or parsing.
\<close>

type_synonym file_read = "string \<times> (pyerror + json)"

text \<open>One iteration of the loop of \<^verbatim>\<open>merge_streaming_history\<close> (the body of its \<^verbatim>\<open>try\<close>).\<close>

fun merge_streaming_file :: "merged_data \<Rightarrow> file_read \<Rightarrow> merged_data" where
  "merge_streaming_file md (path, Inl err) = md"
| "merge_streaming_file md (path, Inr (JList xs)) =
     md\<lparr>streaming_history := streaming_history md @ xs,
        files_processed := files_processed md + 1\<rparr>"
| "merge_streaming_file md (path, Inr other) = md"

definition merge_streaming_history :: "file_read list \<Rightarrow> merged_data \<Rightarrow> merged_data" where
  "merge_streaming_history all_files md = foldl merge_streaming_file md all_files"

text \<open>
  \<^verbatim>\<open>list.extend(v)\<close> for a parsed JSON value \<open>v\<close>: a list gives its elements, a dict its
  keys, a string its characters (as one-character strings); any other value is not
  iterable and raises \<^verbatim>\<open>TypeError\<close> before anything is appended.
\<close>

fun py_iter :: "json \<Rightarrow> pyerror + json list" where
  "py_iter (JList xs) = Inr xs"
| "py_iter (JObj d) = Inr (map (\<lambda>kv. JStr (fst kv)) d)"
| "py_iter (JStr s) = Inr (map (\<lambda>c. JStr [c]) s)"
| "py_iter other = Inl TypeError"

text \<open>One iteration of the loop of \<^verbatim>\<open>merge_playlists\<close>.\<close>

fun merge_playlist_file :: "merged_data \<Rightarrow> file_read \<Rightarrow> merged_data" where
  "merge_playlist_file md (path, Inl err) = md"
| "merge_playlist_file md (path, Inr (JObj d)) =
     (case map_of d ''playlists'' of
        None \<Rightarrow> md
      | Some v \<Rightarrow>
          (case py_iter v of
             Inl err \<Rightarrow> md
           | Inr items \<Rightarrow>
               md\<lparr>playlists := playlists md @ items,
                  files_processed := files_processed md + 1\<rparr>))"
| "merge_playlist_file md (path, Inr other) = md"

definition merge_playlists :: "file_read list \<Rightarrow> merged_data \<Rightarrow> merged_data" where
  "merge_playlists playlist_files md = foldl merge_playlist_file md playlist_files"

text \<open>
  \<^verbatim>\<open>merge_user_data\<close>.  \<^verbatim>\<open>data.get\<close> exists on a dict only (\<^verbatim>\<open>AttributeError\<close>
  otherwise); \<^verbatim>\<open>len\<close> is defined on lists, dicts and strings (\<^verbatim>\<open>TypeError\<close>
  otherwise).  Every exception is caught by the \<^verbatim>\<open>except\<close> of the loop body.
\<close>

fun py_len :: "json \<Rightarrow> pyerror + nat" where
  "py_len (JList xs) = Inr (length xs)"
| "py_len (JObj d) = Inr (length d)"
| "py_len (JStr s) = Inr (length s)"
| "py_len other = Inl TypeError"

definition library_counts :: "(string \<times> json) list \<Rightarrow> pyerror + json" where
  "library_counts d =
     (case py_len (dict_get d ''tracks'' (JList [])) of
        Inl err \<Rightarrow> Inl err
      | Inr t \<Rightarrow>
     (case py_len (dict_get d ''albums'' (JList [])) of
        Inl err \<Rightarrow> Inl err
      | Inr a \<Rightarrow>
     (case py_len (dict_get d ''artists'' (JList [])) of
        Inl err \<Rightarrow> Inl err
      | Inr r \<Rightarrow>
          Inr (JObj [(''tracks_count'', JInt (int t)), (''albums_count'', JInt (int a)),
                     (''artists_count'', JInt (int r))]))))"

definition safe_user_data :: "string \<Rightarrow> json \<Rightarrow> pyerror + json" where
  "safe_user_data filename data =
     (case data of
        JObj d \<Rightarrow>
          if filename = ''Identity.json'' then
            Inr (JObj [(''country'', dict_get d ''country'' JNull),
                       (''birthdate'', dict_get d ''birthdate'' JNull),
                       (''gender'', dict_get d ''gender'' JNull)])
          else if filename = ''Userdata.json'' then
            Inr (JObj [(''username'', dict_get d ''username'' JNull),
                       (''email'', dict_get d ''email'' JNull),
                       (''created'', dict_get d ''created'' JNull)])
          else library_counts d
      | _ \<Rightarrow> Inl AttributeError)"

text \<open>
  The three well-known files, each with \<open>None\<close> when \<^verbatim>\<open>file_path.exists()\<close> is false.
  The key stored is the file name without \<^verbatim>\<open>.json\<close>.
\<close>

fun merge_user_file :: "merged_data \<Rightarrow> string \<times> string \<times> (pyerror + json) option \<Rightarrow> merged_data" where
  "merge_user_file md (filename, key, None) = md"
| "merge_user_file md (filename, key, Some (Inl err)) = md"
| "merge_user_file md (filename, key, Some (Inr data)) =
     (case safe_user_data filename data of
        Inl err \<Rightarrow> md
      | Inr safe_data \<Rightarrow>
          md\<lparr>user_data := AList.update key safe_data (user_data md),
             files_processed := files_processed md + 1\<rparr>)"

definition merge_user_data ::
  "(pyerror + json) option \<Rightarrow> (pyerror + json) option \<Rightarrow> (pyerror + json) option \<Rightarrow>
   merged_data \<Rightarrow> merged_data" where
  "merge_user_data identity userdata library md =
     foldl merge_user_file md
       [(''Identity.json'', ''Identity'', identity),
        (''Userdata.json'', ''Userdata'', userdata),
        (''YourLibrary.json'', ''YourLibrary'', library)]"

text \<open>
  \<^verbatim>\<open>clean_streaming_data\<close>, one entry: \<open>Inr None\<close> when the entry is dropped,
  \<open>Inr (Some e)\<close> when it is kept (with \<^verbatim>\<open>msPlayed\<close> overwritten by its integer), \<open>Inl\<close>
  for an exception that the function does not catch: \<^verbatim>\<open>entry.get\<close> on a value that
  is not a dict, and the \<^verbatim>\<open>OverflowError\<close> of \<^verbatim>\<open>int\<close> on an infinity (the handler
  names \<^verbatim>\<open>ValueError\<close> and \<^verbatim>\<open>TypeError\<close> only).
\<close>

fun clean_entry :: "json \<Rightarrow> pyerror + json option" where
  "clean_entry (JObj d) =
     (if truthy (dict_get d ''trackName'' JNull) \<and>
         truthy (dict_get d ''artistName'' JNull) \<and>
         truthy (dict_get d ''endTime'' JNull) \<and>
         truthy (dict_get d ''msPlayed'' JNull)
      then
        (case py_int (dict_get d ''msPlayed'' JNull) of
           Inl ValueError \<Rightarrow> Inr None
         | Inl TypeError \<Rightarrow> Inr None
         | Inl err \<Rightarrow> Inl err
         | Inr n \<Rightarrow>
             if 0 < n then Inr (Some (JObj (AList.update ''msPlayed'' (JInt n) d)))
             else Inr None)
      else Inr None)"
| "clean_entry other = Inl AttributeError"

fun clean_entries :: "json list \<Rightarrow> json list \<Rightarrow> pyerror + json list" where
  "clean_entries cleaned_data [] = Inr cleaned_data"
| "clean_entries cleaned_data (entry # rest) =
     (case clean_entry entry of
        Inl err \<Rightarrow> Inl err
      | Inr None \<Rightarrow> clean_entries cleaned_data rest
      | Inr (Some e) \<Rightarrow> clean_entries (cleaned_data @ [e]) rest)"

definition clean_streaming_data :: "merged_data \<Rightarrow> pyerror + merged_data" where
  "clean_streaming_data md =
     (case clean_entries [] (streaming_history md) of
        Inl err \<Rightarrow> Inl err
      | Inr cleaned_data \<Rightarrow>
          Inr (md\<lparr>streaming_history := cleaned_data,
                  total_streams := length cleaned_data\<rparr>))"

text \<open>
  \<^verbatim>\<open>run\<close> up to the document that \<^verbatim>\<open>save_merged_data\<close> writes: the three merges on
  a fresh accumulator, then the cleaning.
\<close>

definition run_merger ::
  "file_read list \<Rightarrow> file_read list \<Rightarrow>
   (pyerror + json) option \<Rightarrow> (pyerror + json) option \<Rightarrow> (pyerror + json) option \<Rightarrow>
   pyerror + merged_data" where
  "run_merger streaming_files playlist_files identity userdata library =
     clean_streaming_data
       (merge_user_data identity userdata library
         (merge_playlists playlist_files
           (merge_streaming_history streaming_files init_merged_data)))"

section \<open>Regular expressions as Python's \<^verbatim>\<open>re\<close> module runs them\<close>

text \<open>
  The Sanitizer and the Privacy Scanner use \<^verbatim>\<open>re.findall\<close>, \<^verbatim>\<open>re.sub\<close> and \<^verbatim>\<open>re.search\<close>
  with seven fixed patterns.  The patterns are built from character classes, the word
  boundary \<^verbatim>\<open>\b\<close>, concatenation, ordered alternation, and greedy repetition, bounded
  (\<^verbatim>\<open>{m,n}\<close>, \<^verbatim>\<open>?\<close>) on any sub-pattern and unbounded (\<^verbatim>\<open>+\<close>, \<^verbatim>\<open>{m,}\<close>) on a character
  class.  A character class is a list of inclusive ranges.
\<close>

type_synonym char_class = "(char \<times> char) list"

definition in_class :: "char_class \<Rightarrow> char \<Rightarrow> bool" where
  "in_class cl c =
     list_ex (\<lambda>(lo, hi). (of_char lo :: int) \<le> of_char c \<and> (of_char c :: int) \<le> of_char hi) cl"

text \<open>
  The word characters of \<^verbatim>\<open>\b\<close> and \<^verbatim>\<open>\w\<close> for a \<^verbatim>\<open>str\<close> pattern: alphanumeric in the
  Unicode sense, or the underscore.  Among the code points 0 to 255 these are the ASCII
  letters and digits, the underscore, and the letters and numeric characters of the
  upper half listed here.
\<close>

definition word_char :: "char \<Rightarrow> bool" where
  "word_char c =
     (let n = of_char c :: int in
        (48 \<le> n \<and> n \<le> 57) \<or> (65 \<le> n \<and> n \<le> 90) \<or> n = 95 \<or> (97 \<le> n \<and> n \<le> 122) \<or>
        n = 170 \<or> n = 178 \<or> n = 179 \<or> n = 181 \<or> n = 185 \<or> n = 186 \<or>
        (188 \<le> n \<and> n \<le> 190) \<or> (192 \<le> n \<and> n \<le> 214) \<or> (216 \<le> n \<and> n \<le> 246) \<or>
        248 \<le> n)"

datatype regex =
    Eps
  | Cls char_class
  | WordB
  | Seq regex regex
  | Alt regex regex
  | Many nat char_class

text \<open>
  A position in the subject string: the character before it (none at the start) and the
  text from it on.  \<^verbatim>\<open>\b\<close> holds where exactly one of the two neighbours is a word
  character.
\<close>

type_synonym position = "char option \<times> string"

fun at_boundary :: "position \<Rightarrow> bool" where
  "at_boundary (prev, rest) =
     ((case prev of None \<Rightarrow> False | Some c \<Rightarrow> word_char c) \<noteq>
      (case rest of [] \<Rightarrow> False | c # cs \<Rightarrow> word_char c))"

text \<open>
  \<open>Many lo cl\<close> is \<^verbatim>\<open>[cl]{lo,}\<close>: as many characters of the class as there are, then,
  on backtracking, one fewer at a time, never fewer than \<open>lo\<close>.
\<close>

fun many_ends :: "nat \<Rightarrow> char_class \<Rightarrow> char option \<Rightarrow> string \<Rightarrow> position list" where
  "many_ends lo cl prev [] = (if lo = 0 then [(prev, [])] else [])"
| "many_ends lo cl prev (c # cs) =
     (if in_class cl c then many_ends (lo - 1) cl (Some c) cs else []) @
     (if lo = 0 then [(prev, c # cs)] else [])"

text \<open>
  \<open>ends r p\<close>: the positions at which a match of \<open>r\<close> that starts at \<open>p\<close> can end, in
  the order in which the backtracking matcher tries them.  The match that \<^verbatim>\<open>re\<close> reports
  at \<open>p\<close> is the first of the list.
\<close>

fun ends :: "regex \<Rightarrow> position \<Rightarrow> position list" where
  "ends Eps p = [p]"
| "ends (Cls cl) (prev, []) = []"
| "ends (Cls cl) (prev, c # cs) = (if in_class cl c then [(Some c, cs)] else [])"
| "ends WordB p = (if at_boundary p then [p] else [])"
| "ends (Seq a b) p = concat (map (ends b) (ends a p))"
| "ends (Alt a b) p = ends a p @ ends b p"
| "ends (Many lo cl) (prev, rest) = many_ends lo cl prev rest"

text \<open>
  Bounded greedy repetition \<^verbatim>\<open>r{lo,hi}\<close>: \<open>lo\<close> copies, then up to \<open>hi - lo\<close> optional
  ones, each tried before it is given up.
\<close>

fun rep_exact :: "nat \<Rightarrow> regex \<Rightarrow> regex" where
  "rep_exact 0 r = Eps"
| "rep_exact (Suc n) r = Seq r (rep_exact n r)"

fun rep_upto :: "nat \<Rightarrow> regex \<Rightarrow> regex" where
  "rep_upto 0 r = Eps"
| "rep_upto (Suc n) r = Alt (Seq r (rep_upto n r)) Eps"

definition rep :: "nat \<Rightarrow> nat \<Rightarrow> regex \<Rightarrow> regex" where
  "rep lo hi r = Seq (rep_exact lo r) (rep_upto (hi - lo) r)"

definition chr :: "char \<Rightarrow> regex" where
  "chr c = Cls [(c, c)]"

definition lit :: "string \<Rightarrow> regex" where
  "lit s = foldr (\<lambda>c r. Seq (chr c) r) s Eps"

definition seq :: "regex list \<Rightarrow> regex" where
  "seq rs = foldr Seq rs Eps"

fun alt :: "regex list \<Rightarrow> regex" where
  "alt [] = Cls []"
| "alt [r] = r"
| "alt (r # rs) = Alt r (alt rs)"

text \<open>
  The left-to-right scan shared by \<^verbatim>\<open>re.findall\<close> and \<^verbatim>\<open>re.sub\<close>: at each position the
  first match is taken and the scan goes on where it ends; where nothing matches, one
  character is passed over.  After an empty match the scan stays where it is and
  must then find a match that is not empty (\<open>must_advance\<close>).  The result lists the
  characters passed over (\<open>Lit\<close>) and the texts matched (\<open>Hit\<close>).
\<close>

datatype token = Lit char | Hit string

function re_scan :: "regex \<Rightarrow> bool \<Rightarrow> char option \<Rightarrow> string \<Rightarrow> token list" where
  "re_scan r must_advance prev s =
     (case (if must_advance
            then filter (\<lambda>(p, rest). length rest < length s) (ends r (prev, s))
            else ends r (prev, s)) of
        [] \<Rightarrow> (case s of [] \<Rightarrow> [] | c # cs \<Rightarrow> Lit c # re_scan r False (Some c) cs)
      | (prev', rest) # others \<Rightarrow>
          if length rest < length s
          then Hit (take (length s - length rest) s) # re_scan r False prev' rest
          else if must_advance then []
          else Hit [] # re_scan r True prev s)"
  by pat_completeness auto
termination
  by (relation "measures [\<lambda>(r, m, p, s). length s, \<lambda>(r, m, p, s). if m then 0 else 1]") auto

declare re_scan.simps [simp del]

text \<open>
  \<^verbatim>\<open>re.findall\<close> (one entry per match: the scripts use the list for its length, its
  emptiness and its first entries, so the entry is the matched text also where Python
  would return the groups), \<^verbatim>\<open>re.sub\<close> with a literal replacement, and \<^verbatim>\<open>re.search\<close>
  as a truth value.
\<close>

definition re_findall :: "regex \<Rightarrow> string \<Rightarrow> string list" where
  "re_findall r s =
     concat (map (\<lambda>t. case t of Lit c \<Rightarrow> [] | Hit m \<Rightarrow> [m]) (re_scan r False None s))"

definition re_sub :: "regex \<Rightarrow> string \<Rightarrow> string \<Rightarrow> string" where
  "re_sub r repl s =
     concat (map (\<lambda>t. case t of Lit c \<Rightarrow> [c] | Hit m \<Rightarrow> repl) (re_scan r False None s))"

definition re_search :: "regex \<Rightarrow> string \<Rightarrow> bool" where
  "re_search r s = (re_findall r s \<noteq> [])"

subsection \<open>The seven patterns\<close>

definition digit :: char_class where
  "digit = [(CHR ''0'', CHR ''9'')]"

definition hex_lower :: char_class where
  "hex_lower = [(CHR ''0'', CHR ''9''), (CHR ''a'', CHR ''f'')]"

definition hex_any :: char_class where
  "hex_any = [(CHR ''0'', CHR ''9''), (CHR ''A'', CHR ''F''), (CHR ''a'', CHR ''f'')]"

text \<open>\<^verbatim>\<open>\b(?:[0-9]{1,3}\.){3}[0-9]{1,3}\b\<close>\<close>

definition ip_addresses :: regex where
  "ip_addresses =
     seq [WordB, rep 3 3 (seq [rep 1 3 (Cls digit), chr CHR ''.'']), rep 1 3 (Cls digit), WordB]"

text \<open>\<^verbatim>\<open>\b[A-Za-z0-9._%+-]+@[A-Za-z0-9.-]+\.[A-Z|a-z]{2,}\b\<close>\<close>

definition email_addresses :: regex where
  "email_addresses =
     seq [WordB,
          Many 1 [(CHR ''A'', CHR ''Z''), (CHR ''a'', CHR ''z''), (CHR ''0'', CHR ''9''),
                  (CHR ''.'', CHR ''.''), (CHR ''_'', CHR ''_''), (CHR ''%'', CHR ''%''),
                  (CHR ''+'', CHR ''+''), (CHR ''-'', CHR ''-'')],
          chr CHR ''@'',
          Many 1 [(CHR ''A'', CHR ''Z''), (CHR ''a'', CHR ''z''), (CHR ''0'', CHR ''9''),
                  (CHR ''.'', CHR ''.''), (CHR ''-'', CHR ''-'')],
          chr CHR ''.'',
          Many 2 [(CHR ''A'', CHR ''Z''), (CHR ''|'', CHR ''|''), (CHR ''a'', CHR ''z'')],
          WordB]"

text \<open>\<^verbatim>\<open>\b[0-9a-f]{8}-[0-9a-f]{4}-[0-9a-f]{4}-[0-9a-f]{4}-[0-9a-f]{12}\b\<close>\<close>

definition device_ids :: regex where
  "device_ids =
     seq [WordB, rep 8 8 (Cls hex_lower), chr CHR ''-'', rep 4 4 (Cls hex_lower), chr CHR ''-'',
          rep 4 4 (Cls hex_lower), chr CHR ''-'', rep 4 4 (Cls hex_lower), chr CHR ''-'',
          rep 12 12 (Cls hex_lower), WordB]"

text \<open>\<^verbatim>\<open>\b([0-9A-Fa-f]{2}[:-]){5}([0-9A-Fa-f]{2})\b\<close>\<close>

definition mac_addresses :: regex where
  "mac_addresses =
     seq [WordB,
          rep 5 5 (seq [rep 2 2 (Cls hex_any), Cls [(CHR '':'', CHR '':''), (CHR ''-'', CHR ''-'')]]),
          rep 2 2 (Cls hex_any), WordB]"

text \<open>\<^verbatim>\<open>\b\+?[1-9]\d{1,14}\b\<close> (of the code points 0 to 255, \<^verbatim>\<open>\d\<close> matches 0 to 9 only)\<close>

definition phone_numbers :: regex where
  "phone_numbers =
     seq [WordB, rep 0 1 (chr CHR ''+''), Cls [(CHR ''1'', CHR ''9'')], rep 1 14 (Cls digit), WordB]"

text \<open>\<^verbatim>\<open>\b\d{4}[- ]?\d{4}[- ]?\d{4}[- ]?\d{4}\b\<close>\<close>

definition dash_or_space :: char_class where
  "dash_or_space = [(CHR ''-'', CHR ''-''), (CHR '' '', CHR '' '')]"

definition credit_cards :: regex where
  "credit_cards =
     seq [WordB, rep 4 4 (Cls digit), rep 0 1 (Cls dash_or_space),
          rep 4 4 (Cls digit), rep 0 1 (Cls dash_or_space),
          rep 4 4 (Cls digit), rep 0 1 (Cls dash_or_space),
          rep 4 4 (Cls digit), WordB]"

text \<open>\<^verbatim>\<open>spotify:(track|album|artist|playlist|user):[a-zA-Z0-9]+\<close>\<close>

definition spotify_uris :: regex where
  "spotify_uris =
     seq [lit ''spotify:'',
          alt [lit ''track'', lit ''album'', lit ''artist'', lit ''playlist'', lit ''user''],
          chr CHR '':'',
          Many 1 [(CHR ''a'', CHR ''z''), (CHR ''A'', CHR ''Z''), (CHR ''0'', CHR ''9'')]]"

subsection \<open>\<^verbatim>\<open>str.lower\<close> and the substring test \<^verbatim>\<open>a in b\<close>\<close>

text \<open>
  On the code points 0 to 255, \<^verbatim>\<open>lower\<close> moves A to Z and the capital letters
  0xC0 to 0xDE (0xD7, the multiplication sign, excepted) 32 places up.
\<close>

definition lower_char :: "char \<Rightarrow> char" where
  "lower_char c =
     (let n = of_char c :: int in
      if (65 \<le> n \<and> n \<le> 90) \<or> (192 \<le> n \<and> n \<le> 222 \<and> n \<noteq> 215)
      then char_of (n + 32) else c)"

definition lower :: "string \<Rightarrow> string" where
  "lower s = map lower_char s"

fun py_in :: "string \<Rightarrow> string \<Rightarrow> bool" where
  "py_in a [] = (a = [])"
| "py_in a (c # cs) = (take (length a) (c # cs) = a \<or> py_in a cs)"

section \<open>Sanitizer (\<^verbatim>\<open>scripts/sanitize_data.py\<close>)\<close>

text \<open>
  \<^verbatim>\<open>self.redaction_patterns\<close>, in the insertion order in which the dict is iterated:
  name, pattern and replacement.
\<close>

definition redaction_patterns :: "(string \<times> regex \<times> string) list" where
  "redaction_patterns =
     [(''ip_addresses'', ip_addresses, ''[IP_ADDRESS]''),
      (''email_addresses'', email_addresses, ''[EMAIL]''),
      (''device_ids'', device_ids, ''[DEVICE_ID]''),
      (''mac_addresses'', mac_addresses, ''[MAC_ADDRESS]''),
      (''phone_numbers'', phone_numbers, ''[PHONE]''),
      (''credit_cards'', credit_cards, ''[CREDIT_CARD]''),
      (''spotify_uris'', spotify_uris, ''[SPOTIFY_URI]'')]"

definition remove_fields :: "string list" where
  "remove_fields =
     [''ip_addr'', ''ipAddress'', ''ip_address'', ''ipAddrDecrypted'',
      ''email'', ''emailAddress'', ''email_address'',
      ''phone'', ''phoneNumber'', ''phone_number'',
      ''deviceId'', ''device_id'', ''deviceIdDecrypted'',
      ''macAddress'', ''mac_address'',
      ''creditCard'', ''credit_card'', ''cardNumber'',
      ''password'', ''token'', ''accessToken'', ''refreshToken'',
      ''sessionId'', ''session_id'',
      ''userId'', ''user_id'', ''username'',
      ''address'', ''street'', ''city'', ''zip'', ''postalCode'',
      ''ssn'', ''socialSecurity'', ''passport'',
      ''location'', ''latitude'', ''longitude'', ''gps'',
      ''timezone'', ''timeZone'',
      ''platform'', ''os'', ''operatingSystem'',
      ''browser'', ''userAgent'',
      ''connection'', ''network'', ''wifi'',
      ''bluetooth'', ''bluetoothAddress'']"

text \<open>
  \<^verbatim>\<open>self.sanitization_stats\<close> (the timestamp left out).  The fields carry the prefix
  \<open>san_\<close> because \<open>files_processed\<close> already names a field of the Merger.
\<close>

record sanitization_stats =
  san_files_processed :: nat
  san_files_sanitized :: nat
  san_total_redactions :: nat

definition init_stats :: sanitization_stats where
  "init_stats = \<lparr>san_files_processed = 0, san_files_sanitized = 0, san_total_redactions = 0\<rparr>"

text \<open>
  \<^verbatim>\<open>sanitize_string\<close> on a \<^verbatim>\<open>str\<close>: one pass over the patterns, each applied to the text
  as the patterns before it left it.  The result is the text and the local count
  \<^verbatim>\<open>redactions\<close>, which the method adds to \<^verbatim>\<open>total_redactions\<close>.
\<close>

fun redact_step :: "string \<times> nat \<Rightarrow> string \<times> regex \<times> string \<Rightarrow> string \<times> nat" where
  "redact_step (sanitized, redactions) (pattern_name, pattern, replacement) =
     (let matches = re_findall pattern sanitized in
      if matches \<noteq> []
      then (re_sub pattern replacement sanitized, redactions + length matches)
      else (sanitized, redactions))"

definition sanitize_string :: "string \<Rightarrow> string \<times> nat" where
  "sanitize_string text = foldl redact_step (text, 0) redaction_patterns"

text \<open>The test of line 89: some entry of the removal list, lowered, occurs in the lowered key.\<close>

definition removed_key :: "string \<Rightarrow> bool" where
  "removed_key key = list_ex (\<lambda>remove_field. py_in (lower remove_field) (lower key)) remove_fields"

text \<open>
  \<^verbatim>\<open>sanitize_object\<close>, with the statistics passed through: the values are visited in
  order, and each string adds its redactions to \<^verbatim>\<open>total_redactions\<close>.
\<close>

fun sanitize_object :: "json \<Rightarrow> sanitization_stats \<Rightarrow> json \<times> sanitization_stats"
  and sanitize_items :: "json list \<Rightarrow> sanitization_stats \<Rightarrow> json list \<times> sanitization_stats"
  and sanitize_fields ::
    "(string \<times> json) list \<Rightarrow> sanitization_stats \<Rightarrow> (string \<times> json) list \<times> sanitization_stats"
where
  "sanitize_object (JObj d) st =
     (case sanitize_fields d st of (sanitized, st') \<Rightarrow> (JObj sanitized, st'))"
| "sanitize_object (JList xs) st =
     (case sanitize_items xs st of (sanitized, st') \<Rightarrow> (JList sanitized, st'))"
| "sanitize_object (JStr s) st =
     (case sanitize_string s of
        (sanitized, redactions) \<Rightarrow>
          (JStr sanitized, st\<lparr>san_total_redactions := san_total_redactions st + redactions\<rparr>))"
| "sanitize_object JNull st = (JNull, st)"
| "sanitize_object (JBool b) st = (JBool b, st)"
| "sanitize_object (JInt n) st = (JInt n, st)"
| "sanitize_object (JFloat f) st = (JFloat f, st)"
| "sanitize_items [] st = ([], st)"
| "sanitize_items (item # items) st =
     (case sanitize_object item st of
        (item', st1) \<Rightarrow>
          (case sanitize_items items st1 of (items', st2) \<Rightarrow> (item' # items', st2)))"
| "sanitize_fields [] st = ([], st)"
| "sanitize_fields ((key, value) # rest) st =
     (if removed_key key then sanitize_fields rest st
      else
        (case sanitize_object value st of
           (value', st1) \<Rightarrow>
             (case sanitize_fields rest st1 of (rest', st2) \<Rightarrow> ((key, value') # rest', st2))))"

text \<open>
  \<^verbatim>\<open>should_skip_file\<close>.  \<^verbatim>\<open>file_path.name\<close> is the last component of the path (the
  separator is the slash).
\<close>

definition path_name :: "string \<Rightarrow> string" where
  "path_name p = rev (takeWhile (\<lambda>c. c \<noteq> CHR ''/'') (rev p))"

definition sensitive_files :: "string list" where
  "sensitive_files =
     [''identity.json'', ''userdata.json'', ''payments.json'', ''follow.json'', ''inferences.json'']"

definition should_skip_file :: "string \<Rightarrow> bool" where
  "should_skip_file file_path =
     (let file_name = lower (path_name file_path); file_path_str = lower file_path in
      if py_in ''technical'' file_path_str \<or> py_in ''log'' file_path_str then True
      else if file_name \<in> set sensitive_files then True
      else False)"

text \<open>
  \<^verbatim>\<open>sanitize_file\<close>: the new statistics and the value returned (\<open>None\<close> for Python's
  \<^verbatim>\<open>None\<close>).  The test of line 147 reads the running total \<^verbatim>\<open>total_redactions\<close>.
\<close>

fun sanitize_file :: "sanitization_stats \<Rightarrow> file_read \<Rightarrow> json option \<times> sanitization_stats" where
  "sanitize_file st (file_path, Inl err) = (None, st)"
| "sanitize_file st (file_path, Inr data) =
     (let st1 = st\<lparr>san_files_processed := san_files_processed st + 1\<rparr> in
      if should_skip_file file_path then (None, st1)
      else
        (case sanitize_object data st1 of
           (sanitized_data, st2) \<Rightarrow>
             if 0 < san_total_redactions st2
             then (Some sanitized_data, st2\<lparr>san_files_sanitized := san_files_sanitized st2 + 1\<rparr>)
             else (Some sanitized_data, st2)))"

text \<open>
  \<^verbatim>\<open>sanitize_all_files\<close> over the files that the two globs list: the statistics after
  the last file.  (The copies written by \<^verbatim>\<open>save_sanitized_file\<close> do not enter the
  statistics.)
\<close>

definition sanitize_all_files :: "file_read list \<Rightarrow> sanitization_stats \<Rightarrow> sanitization_stats" where
  "sanitize_all_files json_files st = foldl (\<lambda>s f. snd (sanitize_file s f)) st json_files"

text \<open>
  \<^verbatim>\<open>create_safe_streaming_history\<close>.  \<^verbatim>\<open>entry.get\<close> on an entry that is not a dict
  raises \<^verbatim>\<open>AttributeError\<close>; the \<^verbatim>\<open>except\<close> around the file ends the loop over that
  file, and the records appended before stay.
\<close>

definition safe_entry :: "(string \<times> json) list \<Rightarrow> (string \<times> json) list" where
  "safe_entry entry =
     [(''trackName'', dict_get entry ''trackName'' (JStr '''')),
      (''artistName'', dict_get entry ''artistName'' (JStr '''')),
      (''albumName'', dict_get entry ''albumName'' (JStr '''')),
      (''endTime'', dict_get entry ''endTime'' (JStr '''')),
      (''msPlayed'', dict_get entry ''msPlayed'' (JInt 0))]"

fun safe_entries :: "json list \<Rightarrow> json list \<Rightarrow> json list" where
  "safe_entries safe_streaming_data [] = safe_streaming_data"
| "safe_entries safe_streaming_data (JObj entry # rest) =
     (if truthy (dict_get (safe_entry entry) ''trackName'' JNull) \<and>
         truthy (dict_get (safe_entry entry) ''artistName'' JNull) \<and>
         truthy (dict_get (safe_entry entry) ''endTime'' JNull) \<and>
         truthy (dict_get (safe_entry entry) ''msPlayed'' JNull)
      then safe_entries (safe_streaming_data @ [JObj (safe_entry entry)]) rest
      else safe_entries safe_streaming_data rest)"
| "safe_entries safe_streaming_data (other # rest) = safe_streaming_data"

fun safe_streaming_file :: "json list \<Rightarrow> file_read \<Rightarrow> json list" where
  "safe_streaming_file safe_streaming_data (file_path, Inr (JList entries)) =
     safe_entries safe_streaming_data entries"
| "safe_streaming_file safe_streaming_data (file_path, other) = safe_streaming_data"

definition create_safe_streaming_history :: "file_read list \<Rightarrow> json list" where
  "create_safe_streaming_history streaming_files = foldl safe_streaming_file [] streaming_files"

section \<open>Privacy Scanner (\<^verbatim>\<open>scripts/privacy_filter.py\<close>)\<close>

text \<open>
  \<^verbatim>\<open>self.sensitive_patterns\<close> in the order of the dict, and the three tiers of
  \<^verbatim>\<open>self.sensitive_fields\<close>.
\<close>

definition sensitive_patterns :: "(string \<times> regex) list" where
  "sensitive_patterns =
     [(''ip_addresses'', ip_addresses),
      (''email_addresses'', email_addresses),
      (''device_ids'', device_ids),
      (''spotify_uris'', spotify_uris),
      (''mac_addresses'', mac_addresses),
      (''phone_numbers'', phone_numbers),
      (''credit_cards'', credit_cards)]"

definition sensitive_fields :: "(string \<times> string list) list" where
  "sensitive_fields =
     [(''high_risk'',
       [''ip_addr'', ''ipAddress'', ''ip_address'', ''ipAddrDecrypted'',
        ''email'', ''emailAddress'', ''email_address'',
        ''phone'', ''phoneNumber'', ''phone_number'',
        ''deviceId'', ''device_id'', ''deviceIdDecrypted'',
        ''macAddress'', ''mac_address'',
        ''creditCard'', ''credit_card'', ''cardNumber'',
        ''password'', ''token'', ''accessToken'', ''refreshToken'',
        ''sessionId'', ''session_id'',
        ''userId'', ''user_id'', ''username'',
        ''address'', ''street'', ''city'', ''zip'', ''postalCode'',
        ''ssn'', ''socialSecurity'', ''passport'']),
      (''medium_risk'',
       [''location'', ''latitude'', ''longitude'', ''gps'',
        ''timezone'', ''timeZone'',
        ''language'', ''locale'',
        ''platform'', ''os'', ''operatingSystem'',
        ''browser'', ''userAgent'',
        ''connection'', ''network'', ''wifi'',
        ''bluetooth'', ''bluetoothAddress'']),
      (''low_risk'',
       [''timestamp'', ''date'', ''time'',
        ''duration'', ''msPlayed'',
        ''trackName'', ''artistName'', ''albumName'',
        ''playlistName'', ''playlist_name''])]"

text \<open>
  An issue.  The code formats each issue as a line of text; the model keeps the parts
  the line is made of, one constructor for each of the six messages: the pattern found in
  the path with its matches, the field name that contains an entry of a tier, the field
  name that matches a pattern, the value that matches a pattern (context, pattern, first
  three matches), the large number, and the error of a file that could not be read.
\<close>

datatype issue =
    PathContains string "string list"
  | FieldMatches string string string string
  | FieldNameContains string string string
  | ValueContains string string "string list"
  | LargeNumeric string json
  | ErrorReading pyerror

text \<open>\<^verbatim>\<open>str(i)\<close> for the index in a context such as \<^verbatim>\<open>name[3]\<close>.\<close>

fun str_of_nat :: "nat \<Rightarrow> string" where
  "str_of_nat n =
     (if n < 10 then [char_of (48 + n)]
      else str_of_nat (n div 10) @ [char_of (48 + n mod 10)])"

declare str_of_nat.simps [simp del]

text \<open>\<^verbatim>\<open>_check_field_name\<close>\<close>

definition check_field_name :: "string \<Rightarrow> string \<Rightarrow> issue list" where
  "check_field_name field_name context =
     concat (map (\<lambda>(risk_level, fields).
        concat (map (\<lambda>sensitive_field.
          if py_in (lower sensitive_field) (lower field_name)
          then [FieldMatches field_name context risk_level sensitive_field] else []) fields))
        sensitive_fields) @
     concat (map (\<lambda>(pattern_name, pattern).
        if re_search pattern field_name
        then [FieldNameContains field_name context pattern_name] else [])
        sensitive_patterns)"

text \<open>
  \<^verbatim>\<open>_check_field_value\<close>.  \<^verbatim>\<open>isinstance(value, (int, float))\<close> holds for booleans too
  (\<^verbatim>\<open>True\<close> is 1); the comparison with \<open>10^12\<close> is exact for integers and floats, false
  for NaN.
\<close>

fun exceeds_threshold :: "json \<Rightarrow> bool" where
  "exceeds_threshold (JInt n) = (1000000000000 < n)"
| "exceeds_threshold (JFloat (FFinite m e)) =
     (if 0 \<le> e then 1000000000000 < m * 2 ^ nat e else 1000000000000 * 2 ^ nat (- e) < m)"
| "exceeds_threshold (JFloat (FInf positive)) = positive"
| "exceeds_threshold (JFloat FNaN) = False"
| "exceeds_threshold other = False"

fun check_field_value :: "json \<Rightarrow> string \<Rightarrow> issue list" where
  "check_field_value (JStr s) context =
     concat (map (\<lambda>(pattern_name, pattern).
        (let matches = re_findall pattern s in
         if matches \<noteq> [] then [ValueContains context pattern_name (take 3 matches)] else []))
        sensitive_patterns)"
| "check_field_value v context =
     (if exceeds_threshold v then [LargeNumeric context v] else [])"

text \<open>
  \<^verbatim>\<open>_analyze_json_structure\<close>.  In a dict every key and every value is checked and
  nested containers are entered; in a list only the nested containers are entered, so
  a string or a number that is an element of a list is not checked.
\<close>

fun is_container :: "json \<Rightarrow> bool" where
  "is_container (JObj d) = True"
| "is_container (JList xs) = True"
| "is_container other = False"

fun analyze_json_structure :: "json \<Rightarrow> string \<Rightarrow> issue list"
  and analyze_fields :: "(string \<times> json) list \<Rightarrow> string \<Rightarrow> issue list"
  and analyze_items :: "json list \<Rightarrow> nat \<Rightarrow> string \<Rightarrow> issue list"
where
  "analyze_json_structure (JObj d) context = analyze_fields d context"
| "analyze_json_structure (JList xs) context = analyze_items xs 0 context"
| "analyze_json_structure JNull context = []"
| "analyze_json_structure (JBool b) context = []"
| "analyze_json_structure (JInt n) context = []"
| "analyze_json_structure (JFloat f) context = []"
| "analyze_json_structure (JStr s) context = []"
| "analyze_fields [] context = []"
| "analyze_fields ((key, value) # rest) context =
     check_field_name key context @
     check_field_value value (context @ ''.'' @ key) @
     (if is_container value then analyze_json_structure value (context @ ''.'' @ key) else []) @
     analyze_fields rest context"
| "analyze_items [] i context = []"
| "analyze_items (item # rest) i context =
     (if is_container item
      then analyze_json_structure item (context @ ''['' @ str_of_nat i @ '']'') else []) @
     analyze_items rest (Suc i) context"

text \<open>
  \<^verbatim>\<open>self.analysis_results\<close> (timestamp and recommendations left out), and the issues
  that the body of the \<^verbatim>\<open>try\<close> of \<^verbatim>\<open>analyze_file\<close> collects for a file that was read:
  the patterns found in its path, then the issues of its content.
\<close>

record analysis_results =
  files_analyzed :: nat
  sensitive_data_found :: "(string \<times> issue list) list"
  safe_files :: "string list"
  risky_files :: "(string \<times> issue list) list"

definition init_results :: analysis_results where
  "init_results =
     \<lparr>files_analyzed = 0, sensitive_data_found = [], safe_files = [], risky_files = []\<rparr>"

definition file_issues :: "string \<Rightarrow> json \<Rightarrow> issue list" where
  "file_issues file_path data =
     concat (map (\<lambda>(pattern_name, pattern).
        (let matches = re_findall pattern file_path in
         if matches \<noteq> [] then [PathContains pattern_name matches] else []))
        sensitive_patterns) @
     analyze_json_structure data (path_name file_path)"

fun analyze_file :: "analysis_results \<Rightarrow> file_read \<Rightarrow> analysis_results" where
  "analyze_file res (file_path, Inr data) =
     (let issues = file_issues file_path data in
      if issues \<noteq> []
      then res\<lparr>risky_files := risky_files res @ [(file_path, issues)],
               sensitive_data_found := AList.update file_path issues (sensitive_data_found res),
               files_analyzed := files_analyzed res + 1\<rparr>
      else res\<lparr>safe_files := safe_files res @ [file_path],
               files_analyzed := files_analyzed res + 1\<rparr>)"
| "analyze_file res (file_path, Inl err) =
     res\<lparr>risky_files := risky_files res @ [(file_path, [ErrorReading err])]\<rparr>"

definition analyze_all_files :: "file_read list \<Rightarrow> analysis_results \<Rightarrow> analysis_results" where
  "analyze_all_files json_files res = foldl analyze_file res json_files"

section \<open>Predicates used to state the properties\<close>

text \<open>
  What the specification asks of a cleaned streaming record (\<open>spec_valid_record\<close>:
  three non-empty strings and a positive integer), and what the truthiness tests of
  \<^verbatim>\<open>clean_streaming_data\<close> establish (\<open>cleaned_record\<close>).
\<close>

definition nonempty_str :: "json \<Rightarrow> bool" where
  "nonempty_str v = (case v of JStr s \<Rightarrow> s \<noteq> [] | _ \<Rightarrow> False)"

definition positive_int :: "json \<Rightarrow> bool" where
  "positive_int v = (case v of JInt n \<Rightarrow> 0 < n | _ \<Rightarrow> False)"

definition spec_valid_record :: "json \<Rightarrow> bool" where
  "spec_valid_record e =
     (case e of
        JObj d \<Rightarrow>
          nonempty_str (dict_get d ''trackName'' JNull) \<and>
          nonempty_str (dict_get d ''artistName'' JNull) \<and>
          nonempty_str (dict_get d ''endTime'' JNull) \<and>
          positive_int (dict_get d ''msPlayed'' JNull)
      | _ \<Rightarrow> False)"

definition cleaned_record :: "json \<Rightarrow> bool" where
  "cleaned_record e =
     (case e of
        JObj d \<Rightarrow>
          truthy (dict_get d ''trackName'' JNull) \<and>
          truthy (dict_get d ''artistName'' JNull) \<and>
          truthy (dict_get d ''endTime'' JNull) \<and>
          positive_int (dict_get d ''msPlayed'' JNull)
      | _ \<Rightarrow> False)"

text \<open>
  The value that \<^verbatim>\<open>sanitize_object\<close> returns (it does not depend on the statistics), the
  keys that occur anywhere in a document and its string leaves.
\<close>

definition sanitized :: "json \<Rightarrow> json" where
  "sanitized v = fst (sanitize_object v init_stats)"



text \<open>
  For \<^verbatim>\<open>create_safe_streaming_history\<close>: the entries of the files that hold a list, and
  the relation between a source entry and the record emitted for it: the five keys, each
  with the value that \<^verbatim>\<open>entry.get\<close> returned, the four tested ones truthy.
\<close>

fun file_entries :: "file_read \<Rightarrow> json list" where
  "file_entries (file_path, Inr (JList entries)) = entries"
| "file_entries (file_path, other) = []"

definition source_entries :: "file_read list \<Rightarrow> json list" where
  "source_entries streaming_files = concat (map file_entries streaming_files)"

definition copied_from :: "(string \<times> json) list \<Rightarrow> json \<Rightarrow> bool" where
  "copied_from entry r =
     (r = JObj [(''trackName'', dict_get entry ''trackName'' (JStr '''')),
                (''artistName'', dict_get entry ''artistName'' (JStr '''')),
                (''albumName'', dict_get entry ''albumName'' (JStr '''')),
                (''endTime'', dict_get entry ''endTime'' (JStr '''')),
                (''msPlayed'', dict_get entry ''msPlayed'' (JInt 0))] \<and>
      truthy (dict_get entry ''trackName'' (JStr '''')) \<and>
      truthy (dict_get entry ''artistName'' (JStr '''')) \<and>
      truthy (dict_get entry ''endTime'' (JStr '''')) \<and>
      truthy (dict_get entry ''msPlayed'' (JInt 0)))"

definition safe_record_of :: "json list \<Rightarrow> json \<Rightarrow> bool" where
  "safe_record_of entries r = (\<exists>entry. JObj entry \<in> set entries \<and> copied_from entry r)"






text \<open>
  For the Privacy Scanner: whether a file was read (\<open>parsed\<close>), whether it was read and the
  analysis found nothing (\<open>is_safe\<close>), and the entry that \<^verbatim>\<open>analyze_file\<close> appends to
  \<^verbatim>\<open>risky_files\<close> for a file that is not safe.
\<close>

definition parsed :: "file_read \<Rightarrow> bool" where
  "parsed f = (case snd f of Inr data \<Rightarrow> True | Inl err \<Rightarrow> False)"

definition is_safe :: "file_read \<Rightarrow> bool" where
  "is_safe f = (case snd f of Inr data \<Rightarrow> file_issues (fst f) data = [] | Inl err \<Rightarrow> False)"

definition risky_entry :: "file_read \<Rightarrow> string \<times> issue list" where
  "risky_entry f =
     (case snd f of
        Inr data \<Rightarrow> (fst f, file_issues (fst f) data)
      | Inl err \<Rightarrow> (fst f, [ErrorReading err]))"

(*THEOREMS*)

section \<open>Merger: properties\<close>

lemma clean_entry_kept:
  assumes "clean_entry e = Inr (Some e')"
  shows "cleaned_record e'"
proof (cases e)
  case (JObj d)
  with assms show ?thesis
    by (auto simp: cleaned_record_def positive_int_def dict_get_def update_conv'
             split: if_splits sum.splits pyerror.splits)
qed (use assms in auto)

lemma clean_entries_kept:
  "clean_entries acc xs = Inr ys \<Longrightarrow> list_all cleaned_record acc \<Longrightarrow>
   list_all cleaned_record ys"
proof (induction xs arbitrary: acc)
  case Nil
  then show ?case by simp
next
  case (Cons x xs)
  show ?case
  proof (cases "clean_entry x")
    case (Inl err)
    with Cons.prems show ?thesis by simp
  next
    case (Inr r)
    show ?thesis
    proof (cases r)
      case None
      with Inr Cons.prems have "clean_entries acc xs = Inr ys" by simp
      with Cons.IH Cons.prems(2) show ?thesis by blast
    next
      case (Some e)
      with Inr Cons.prems have "clean_entries (acc @ [e]) xs = Inr ys" by simp
      moreover from Inr Some have "cleaned_record e" by (simp add: clean_entry_kept)
      with Cons.prems(2) have "list_all cleaned_record (acc @ [e])" by simp
      ultimately show ?thesis using Cons.IH by blast
    qed
  qed
qed

text \<open>
  Claim C4, as stated: every record of the cleaned \<^verbatim>\<open>streaming_history\<close> has non-empty
  strings for \<^verbatim>\<open>trackName\<close>, \<^verbatim>\<open>artistName\<close> and \<^verbatim>\<open>endTime\<close>.  The code tests the truth
  value of the three fields and never their type: a record whose \<^verbatim>\<open>trackName\<close> is the
  number 5 goes through the whole Merger and is kept.
\<close>

theorem cleaned_record_not_string_counterexample:
  "run_merger
     [(''StreamingHistory_music_0.json'',
       Inr (JList [JObj [(''trackName'', JInt 5), (''artistName'', JStr ''B''),
                         (''endTime'', JStr ''2024-01-01T12:00:00Z''),
                         (''msPlayed'', JInt 180000)]]))]
     [] None None None
   = Inr \<lparr>streaming_history =
            [JObj [(''trackName'', JInt 5), (''artistName'', JStr ''B''),
                   (''endTime'', JStr ''2024-01-01T12:00:00Z''),
                   (''msPlayed'', JInt 180000)]],
          playlists = [], user_data = [], files_processed = 1, total_streams = 1\<rparr>
   \<and> \<not> spec_valid_record
         (JObj [(''trackName'', JInt 5), (''artistName'', JStr ''B''),
                (''endTime'', JStr ''2024-01-01T12:00:00Z''),
                (''msPlayed'', JInt 180000)])"
  by (simp add: run_merger_def clean_streaming_data_def merge_user_data_def
      merge_playlists_def merge_streaming_history_def init_merged_data_def dict_get_def
      spec_valid_record_def nonempty_str_def)

text \<open>
  Claim C4, amended: when the cleaning step returns, every record of the cleaned
  \<^verbatim>\<open>streaming_history\<close> is a dict whose \<^verbatim>\<open>trackName\<close>, \<^verbatim>\<open>artistName\<close> and \<^verbatim>\<open>endTime\<close>
  are truthy values (non-empty when they are strings) and whose \<^verbatim>\<open>msPlayed\<close> is a
  positive integer.
\<close>

theorem cleaned_records_valid:
  assumes "clean_streaming_data md = Inr md'"
  shows "\<forall>e\<in>set (streaming_history md'). cleaned_record e"
proof -
  from assms obtain cleaned where c: "clean_entries [] (streaming_history md) = Inr cleaned"
    and md': "md' = md\<lparr>streaming_history := cleaned, total_streams := length cleaned\<rparr>"
    unfolding clean_streaming_data_def by (cases "clean_entries [] (streaming_history md)") auto
  from clean_entries_kept [OF c] have "list_all cleaned_record cleaned" by simp
  with md' show ?thesis by (simp add: list_all_iff)
qed

theorem cleaned_records_valid_witness:
  "clean_streaming_data
     \<lparr>streaming_history =
        [JObj [(''trackName'', JStr ''A''), (''artistName'', JStr ''B''),
               (''endTime'', JStr ''2024-01-01T12:00:00Z''), (''msPlayed'', JStr ''180000'')],
         JObj [(''trackName'', JStr ''A''), (''msPlayed'', JInt 7)]],
      playlists = [], user_data = [], files_processed = 1, total_streams = 0\<rparr>
   = Inr \<lparr>streaming_history =
            [JObj [(''trackName'', JStr ''A''), (''artistName'', JStr ''B''),
                   (''endTime'', JStr ''2024-01-01T12:00:00Z''), (''msPlayed'', JInt 180000)]],
          playlists = [], user_data = [], files_processed = 1, total_streams = 1\<rparr>
   \<and> cleaned_record
         (JObj [(''trackName'', JStr ''A''), (''artistName'', JStr ''B''),
                (''endTime'', JStr ''2024-01-01T12:00:00Z''), (''msPlayed'', JInt 180000)])"
proof -
  have h: "clean_streaming_data
     \<lparr>streaming_history =
        [JObj [(''trackName'', JStr ''A''), (''artistName'', JStr ''B''),
               (''endTime'', JStr ''2024-01-01T12:00:00Z''), (''msPlayed'', JStr ''180000'')],
         JObj [(''trackName'', JStr ''A''), (''msPlayed'', JInt 7)]],
      playlists = [], user_data = [], files_processed = 1, total_streams = 0\<rparr>
   = Inr \<lparr>streaming_history =
            [JObj [(''trackName'', JStr ''A''), (''artistName'', JStr ''B''),
                   (''endTime'', JStr ''2024-01-01T12:00:00Z''), (''msPlayed'', JInt 180000)]],
          playlists = [], user_data = [], files_processed = 1, total_streams = 1\<rparr>"
    by (simp add: clean_streaming_data_def dict_get_def int_of_str_def int_space_def
        is_ascii_digit_def digit_val_def)
  from cleaned_records_valid [OF h] h show ?thesis by simp
qed

text \<open>
  Claim C6: after the cleaning step, and hence in the document that the Merger saves,
  \<^verbatim>\<open>metadata.total_streams\<close> is the length of \<^verbatim>\<open>streaming_history\<close>.
\<close>

theorem total_streams_eq_length:
  "(clean_streaming_data md = Inr md' \<longrightarrow>
      total_streams md' = length (streaming_history md')) \<and>
   (run_merger sf pf i u l = Inr md' \<longrightarrow>
      total_streams md' = length (streaming_history md'))"
  unfolding run_merger_def clean_streaming_data_def
  by (auto split: sum.splits)

theorem total_streams_eq_length_witness:
  "run_merger
     [(''StreamingHistory_music_0.json'',
       Inr (JList [JObj [(''trackName'', JStr ''A''), (''artistName'', JStr ''B''),
                         (''endTime'', JStr ''2024-01-01T12:00:00Z''),
                         (''msPlayed'', JInt 180000)],
                   JObj [(''trackName'', JStr ''A''), (''artistName'', JStr ''B''),
                         (''endTime'', JStr ''2024-01-01T12:00:00Z''),
                         (''msPlayed'', JInt 0)]]))]
     [] None None None
   = Inr \<lparr>streaming_history =
            [JObj [(''trackName'', JStr ''A''), (''artistName'', JStr ''B''),
                   (''endTime'', JStr ''2024-01-01T12:00:00Z''),
                   (''msPlayed'', JInt 180000)]],
          playlists = [], user_data = [], files_processed = 1, total_streams = 1\<rparr>
   \<and> total_streams
         \<lparr>streaming_history =
            [JObj [(''trackName'', JStr ''A''), (''artistName'', JStr ''B''),
                   (''endTime'', JStr ''2024-01-01T12:00:00Z''),
                   (''msPlayed'', JInt 180000)]],
          playlists = [], user_data = [], files_processed = 1, total_streams = 1\<rparr>
       = length [JObj [(''trackName'', JStr ''A''), (''artistName'', JStr ''B''),
                   (''endTime'', JStr ''2024-01-01T12:00:00Z''),
                   (''msPlayed'', JInt 180000)]]"
proof -
  have h: "run_merger
     [(''StreamingHistory_music_0.json'',
       Inr (JList [JObj [(''trackName'', JStr ''A''), (''artistName'', JStr ''B''),
                         (''endTime'', JStr ''2024-01-01T12:00:00Z''),
                         (''msPlayed'', JInt 180000)],
                   JObj [(''trackName'', JStr ''A''), (''artistName'', JStr ''B''),
                         (''endTime'', JStr ''2024-01-01T12:00:00Z''),
                         (''msPlayed'', JInt 0)]]))]
     [] None None None
   = Inr \<lparr>streaming_history =
            [JObj [(''trackName'', JStr ''A''), (''artistName'', JStr ''B''),
                   (''endTime'', JStr ''2024-01-01T12:00:00Z''),
                   (''msPlayed'', JInt 180000)]],
          playlists = [], user_data = [], files_processed = 1, total_streams = 1\<rparr>"
    by (simp add: run_merger_def clean_streaming_data_def merge_user_data_def
        merge_playlists_def merge_streaming_history_def init_merged_data_def dict_get_def)
  from h show ?thesis
    using total_streams_eq_length
      [of "\<lparr>streaming_history = [], playlists = [], user_data = [],
             files_processed = 0, total_streams = 0\<rparr>"
          "\<lparr>streaming_history =
            [JObj [(''trackName'', JStr ''A''), (''artistName'', JStr ''B''),
                   (''endTime'', JStr ''2024-01-01T12:00:00Z''),
                   (''msPlayed'', JInt 180000)]],
          playlists = [], user_data = [], files_processed = 1, total_streams = 1\<rparr>"]
    by simp
qed

text \<open>
  Claim C7: only a \<^verbatim>\<open>"playlists"\<close> value that is an array contributes playlists.  The
  code tests that the document is a dict with the key and then calls \<^verbatim>\<open>extend\<close> on
  whatever the value is: for a file that holds one playlist object where the array is
  expected, the keys of that object are appended as playlists and the file is counted.
\<close>

theorem merge_playlists_non_array:
  "merge_playlists
     [(''Playlist1.json'',
       Inr (JObj [(''playlists'', JObj [(''name'', JStr ''Mix''), (''items'', JList [])])]))]
     init_merged_data
   = \<lparr>streaming_history = [], playlists = [JStr ''name'', JStr ''items''],
      user_data = [], files_processed = 1, total_streams = 0\<rparr>"
  by (simp add: merge_playlists_def init_merged_data_def)

text \<open>
  Claim C8: a file whose reading or parsing raises leaves \<^verbatim>\<open>streaming_history\<close>,
  \<^verbatim>\<open>playlists\<close>, \<^verbatim>\<open>user_data\<close> and \<^verbatim>\<open>files_processed\<close> as they were, and the loop goes
  on with the files after it: the merge is the merge of the other files.
\<close>

theorem failed_file_leaves_state:
  "merge_streaming_file md (path, Inl err) = md \<and>
   merge_playlist_file md (path, Inl err) = md \<and>
   merge_user_file md (filename, key, Some (Inl err)) = md \<and>
   merge_streaming_history (before @ (path, Inl err) # after) md =
     merge_streaming_history (before @ after) md \<and>
   merge_playlists (before @ (path, Inl err) # after) md =
     merge_playlists (before @ after) md"
  by (simp add: merge_streaming_history_def merge_playlists_def)

section \<open>Sanitizer: properties\<close>

lemma sanitize_items_aux:
  assumes "\<And>x st. x \<in> set xs \<Longrightarrow> fst (sanitize_object x st) = sanitized x"
  shows "fst (sanitize_items xs st) = map sanitized xs"
  using assms by (induction xs arbitrary: st) (simp_all add: split_def)

lemma sanitize_fields_aux:
  assumes "\<And>k v st. (k, v) \<in> set d \<Longrightarrow> fst (sanitize_object v st) = sanitized v"
  shows "fst (sanitize_fields d st) =
     map (\<lambda>(k, v). (k, sanitized v)) (filter (\<lambda>(k, v). \<not> removed_key k) d)"
  using assms
proof (induction d arbitrary: st)
  case Nil
  show ?case by simp
next
  case (Cons kv d)
  obtain k v where kv: "kv = (k, v)" by (cases kv)
  have v: "\<And>st. fst (sanitize_object v st) = sanitized v"
    using Cons.prems [of k v] kv by simp
  have d: "\<And>st. fst (sanitize_fields d st) =
     map (\<lambda>(k, v). (k, sanitized v)) (filter (\<lambda>(k, v). \<not> removed_key k) d)"
  proof -
    fix st
    show "fst (sanitize_fields d st) =
     map (\<lambda>(k, v). (k, sanitized v)) (filter (\<lambda>(k, v). \<not> removed_key k) d)"
    proof (rule Cons.IH)
      fix k v st
      assume "(k, v) \<in> set d"
      then show "fst (sanitize_object v st) = sanitized v" using Cons.prems [of k v st] by simp
    qed
  qed
  show ?case by (simp add: kv split_def v d)
qed

lemma sanitize_object_sanitized: "fst (sanitize_object v st) = sanitized v"
proof (induction v arbitrary: st)
  case (JList xs)
  have a: "\<And>st. fst (sanitize_items xs st) = map sanitized xs"
    by (rule sanitize_items_aux) (rule JList.IH)
  show ?case unfolding sanitized_def [of "JList xs"] by (simp add: split_def a)
next
  case (JObj d)
  have a: "\<And>st. fst (sanitize_fields d st) =
     map (\<lambda>(k, v). (k, sanitized v)) (filter (\<lambda>(k, v). \<not> removed_key k) d)"
  proof (rule sanitize_fields_aux)
    fix k v st
    assume "(k, v) \<in> set d"
    then show "fst (sanitize_object v st) = sanitized v"
      using JObj.IH [of "(k, v)" v st] by simp
  qed
  show ?case unfolding sanitized_def [of "JObj d"] by (simp add: split_def a)
qed (simp_all add: sanitized_def split_def)

lemma sanitized_simps:
  "sanitized (JList xs) = JList (map sanitized xs)"
  "sanitized (JObj d) =
     JObj (map (\<lambda>(k, v). (k, sanitized v)) (filter (\<lambda>(k, v). \<not> removed_key k) d))"
  "sanitized (JStr s) = JStr (fst (sanitize_string s))"
  "sanitized JNull = JNull"
  "sanitized (JBool b) = JBool b"
  "sanitized (JInt n) = JInt n"
  "sanitized (JFloat f) = JFloat f"
proof -
  have i: "fst (sanitize_items xs init_stats) = map sanitized xs"
    by (rule sanitize_items_aux) (rule sanitize_object_sanitized)
  have f: "fst (sanitize_fields d init_stats) =
     map (\<lambda>(k, v). (k, sanitized v)) (filter (\<lambda>(k, v). \<not> removed_key k) d)"
    by (rule sanitize_fields_aux) (rule sanitize_object_sanitized)
  show "sanitized (JList xs) = JList (map sanitized xs)"
    unfolding sanitized_def [of "JList xs"] by (simp add: split_def i)
  show "sanitized (JObj d) =
     JObj (map (\<lambda>(k, v). (k, sanitized v)) (filter (\<lambda>(k, v). \<not> removed_key k) d))"
    unfolding sanitized_def [of "JObj d"] by (simp add: split_def f)
  show "sanitized (JStr s) = JStr (fst (sanitize_string s))"
    "sanitized JNull = JNull"
    "sanitized (JBool b) = JBool b"
    "sanitized (JInt n) = JInt n"
    "sanitized (JFloat f) = JFloat f"
    by (simp_all add: sanitized_def split_def)
qed


text \<open>
  Claim C10: object sanitization keeps the structure.  A list comes back as the list of
  the sanitized elements (same length, same order); null, booleans and numbers come back
  unchanged; a dict comes back as its surviving entries, in order, each key with the
  sanitization of its value; a string comes back as \<^verbatim>\<open>sanitize_string\<close> leaves it.
\<close>

theorem sanitize_object_structure:
  "fst (sanitize_object (JList xs) st) = JList (map sanitized xs) \<and>
   fst (sanitize_object (JObj d) st) =
     JObj (map (\<lambda>(k, v). (k, sanitized v)) (filter (\<lambda>(k, v). \<not> removed_key k) d)) \<and>
   fst (sanitize_object JNull st) = JNull \<and>
   fst (sanitize_object (JBool b) st) = JBool b \<and>
   fst (sanitize_object (JInt n) st) = JInt n \<and>
   fst (sanitize_object (JFloat f) st) = JFloat f \<and>
   fst (sanitize_object (JStr s) st) = JStr (fst (sanitize_string s))"
  by (simp only: sanitize_object_sanitized sanitized_simps simp_thms)






subsection \<open>What one pass of the substitutions leaves\<close>






text \<open>
  The URI pattern has no word boundary: whether it matches at a position depends on the
  text from there on only, on a prefix in which no bracket occurs.  A match is never
  empty.  So after the URI substitution, which is the last one, no URI is left: a match
  in the result would lie in text copied from the input between two replacements, where
  the scan found none, or would start inside a placeholder, which has no \<^verbatim>\<open>s\<close>.
\<close>

lemma in_class_single: "in_class [(c, c)] x = (x = c)"
  by (auto simp: in_class_def)

lemma ends_chr:
  "ends (chr c) (prev, t) = (case t of [] \<Rightarrow> [] | x # xs \<Rightarrow> if x = c then [(Some c, xs)] else [])"
  by (cases t) (simp_all add: chr_def in_class_single)

lemma lit_Cons: "lit (c # w) = Seq (chr c) (lit w)" and lit_Nil: "lit [] = Eps"
  by (simp_all add: lit_def)

lemma ends_lit:
  "ends (lit w) (prev, t) =
     (if take (length w) t = w
      then [(if w = [] then prev else Some (last w), drop (length w) t)] else [])"
proof (induction w arbitrary: prev t)
  case Nil
  show ?case by (simp add: lit_Nil)
next
  case (Cons c w)
  show ?case
  proof (cases t)
    case Nil
    then show ?thesis by (simp add: lit_Cons ends_chr)
  next
    case (Cons x xs)
    then show ?thesis by (simp add: lit_Cons ends_chr Cons.IH)
  qed
qed

lemma take_length_eq: "(take (length w) t = w) = (\<exists>r. t = w @ r)"
  by (metis append_eq_conv_conj append_take_drop_id)

lemma nonempty_Seq: "(ends (Seq a b) p \<noteq> []) = (\<exists>q\<in>set (ends a p). ends b q \<noteq> [])"
  by auto

lemma many_ends_0_nonempty: "many_ends 0 cl prev t \<noteq> []"
  by (cases t) auto

lemma many_ends_1_nonempty:
  "(many_ends (Suc 0) cl prev t \<noteq> []) = (\<exists>x r. t = x # r \<and> in_class cl x)"
  by (cases t) (auto simp: many_ends_0_nonempty)

lemma ends_Seq_chr:
  "ends (Seq (chr c) r) (prev, t) =
     (case t of [] \<Rightarrow> [] | x # xs \<Rightarrow> if x = c then ends r (Some c, xs) else [])"
  by (cases t) (simp_all add: ends_chr)

lemma ends_Seq_lit:
  "ends (Seq (lit w) r) (prev, t) =
     (if take (length w) t = w
      then ends r (if w = [] then prev else Some (last w), drop (length w) t) else [])"
  by (simp add: ends_lit)

lemma concat_singletons: "concat (map (\<lambda>x. [x]) xs) = xs"
  by (induction xs) simp_all

lemma ends_Seq_Eps: "ends (Seq r Eps) p = ends r p"
proof -
  have "ends Eps = (\<lambda>q. [q])" by (rule ext) simp
  then show ?thesis by (simp add: concat_singletons)
qed

lemma tail_nonempty:
  "(ends (Seq (chr c) (Seq (Many (Suc 0) cl) Eps)) (p, v) \<noteq> []) =
     (\<exists>x r. v = c # x # r \<and> in_class cl x)"
proof (cases v)
  case Nil
  then show ?thesis by (simp only: ends_Seq_chr) simp
next
  case (Cons y ys)
  have "(ends (Many (Suc 0) cl) (Some c, ys) \<noteq> []) = (\<exists>x r. ys = x # r \<and> in_class cl x)"
    by (simp only: ends.simps many_ends_1_nonempty)
  with Cons show ?thesis
    by (simp only: ends_Seq_chr ends_Seq_Eps) auto
qed

lemma head_nonempty:
  "(ends (Seq (lit w) r) (prev, t) \<noteq> []) =
     (\<exists>u. t = w @ u \<and> ends r (if w = [] then prev else Some (last w), u) \<noteq> [])"
proof -
  have "(ends (Seq (lit w) r) (prev, t) \<noteq> []) =
     (take (length w) t = w \<and>
      ends r (if w = [] then prev else Some (last w), drop (length w) t) \<noteq> [])"
    by (simp only: ends_Seq_lit) simp
  also have "\<dots> = (\<exists>u. t = w @ u \<and> ends r (if w = [] then prev else Some (last w), u) \<noteq> [])"
    by (auto simp: take_length_eq)
  finally show ?thesis .
qed

lemma kind_nonempty:
  "(ends (Seq (lit k) (Seq (chr c) (Seq (Many (Suc 0) cl) Eps))) (p, u) \<noteq> []) =
     (\<exists>x r. in_class cl x \<and> u = k @ c # x # r)"
  by (simp only: head_nonempty tail_nonempty) blast




























text \<open>
  Claim C3: \<^verbatim>\<open>files_sanitized\<close> counts the files in which a redaction was made.  The
  test in \<^verbatim>\<open>sanitize_file\<close> reads the running total: after a first file with one
  redaction, a second file in which nothing is redacted (its sanitization leaves the
  statistics as they are) is counted as well.
\<close>

theorem files_sanitized_cumulative:
  "sanitize_all_files
     [(''Spotify Account Data/Marquee.json'', Inr (JList [JStr ''contact 1.2.3.4 now''])),
      (''Spotify Account Data/Wrapped.json'', Inr (JList [JInt 1]))] init_stats
   = \<lparr>san_files_processed = 2, san_files_sanitized = 2, san_total_redactions = 1\<rparr> \<and>
   sanitize_object (JList [JInt 1]) init_stats = (JList [JInt 1], init_stats)"
  by code_simp

lemma safe_entry_lookups:
  "dict_get (safe_entry entry) ''trackName'' JNull = dict_get entry ''trackName'' (JStr '''')"
  "dict_get (safe_entry entry) ''artistName'' JNull = dict_get entry ''artistName'' (JStr '''')"
  "dict_get (safe_entry entry) ''endTime'' JNull = dict_get entry ''endTime'' (JStr '''')"
  "dict_get (safe_entry entry) ''msPlayed'' JNull = dict_get entry ''msPlayed'' (JInt 0)"
  by (simp_all add: safe_entry_def dict_get_def)

lemma safe_entries_sound:
  "r \<in> set (safe_entries acc entries) \<Longrightarrow> r \<in> set acc \<or> safe_record_of entries r"
proof (induction acc entries rule: safe_entries.induct)
  case (1 acc)
  then show ?case by simp
next
  case (2 acc entry rest)
  show ?case
  proof (cases "truthy (dict_get entry ''trackName'' (JStr '''')) \<and>
         truthy (dict_get entry ''artistName'' (JStr '''')) \<and>
         truthy (dict_get entry ''endTime'' (JStr '''')) \<and>
         truthy (dict_get entry ''msPlayed'' (JInt 0))")
    case True
    with 2 have "r \<in> set (acc @ [JObj (safe_entry entry)]) \<or> safe_record_of rest r"
      by (simp add: safe_entry_lookups)
    moreover from True have "copied_from entry (JObj (safe_entry entry))"
      by (simp add: copied_from_def safe_entry_def)
    ultimately show ?thesis
      unfolding safe_record_of_def by auto
  next
    case False
    with 2 have "r \<in> set acc \<or> safe_record_of rest r"
      by (simp add: safe_entry_lookups)
    then show ?thesis unfolding safe_record_of_def by auto
  qed
qed simp_all

lemma safe_streaming_file_sound:
  "r \<in> set (safe_streaming_file acc f) \<Longrightarrow> r \<in> set acc \<or> safe_record_of (file_entries f) r"
proof (cases f)
  case (Pair p c)
  assume r: "r \<in> set (safe_streaming_file acc f)"
  show ?thesis
  proof (cases c)
    case (Inl err)
    with Pair r show ?thesis by simp
  next
    case (Inr data)
    with Pair r show ?thesis by (cases data) (simp_all add: safe_entries_sound)
  qed
qed

lemma foldl_safe_sound:
  "r \<in> set (foldl safe_streaming_file acc files) \<Longrightarrow>
   r \<in> set acc \<or> safe_record_of (source_entries files) r"
proof (induction files arbitrary: acc)
  case Nil
  then show ?case by simp
next
  case (Cons f files)
  from Cons.prems have "r \<in> set (foldl safe_streaming_file (safe_streaming_file acc f) files)"
    by simp
  from Cons.IH [OF this]
  have "r \<in> set (safe_streaming_file acc f) \<or> safe_record_of (source_entries files) r" .
  then show ?case
  proof
    assume "r \<in> set (safe_streaming_file acc f)"
    from safe_streaming_file_sound [OF this] show ?thesis
      unfolding safe_record_of_def source_entries_def by auto
  next
    assume "safe_record_of (source_entries files) r"
    then show ?thesis unfolding safe_record_of_def source_entries_def by auto
  qed
qed


text \<open>
  Claim C9: every record of \<^verbatim>\<open>safe_streaming_history.json\<close> comes from an entry of a
  source file, has exactly the five keys, each with the value the entry had (the default
  where it had none), and its \<^verbatim>\<open>trackName\<close>, \<^verbatim>\<open>artistName\<close>, \<^verbatim>\<open>endTime\<close> and \<^verbatim>\<open>msPlayed\<close>
  are truthy; nothing is converted, so an entry with four truthy values of any type is
  emitted as it is.
\<close>

theorem safe_streaming_records:
  "(\<forall>r\<in>set (create_safe_streaming_history streaming_files).
      safe_record_of (source_entries streaming_files) r) \<and>
   (truthy t \<and> truthy a \<and> truthy e \<and> truthy m \<longrightarrow>
      create_safe_streaming_history
        [(file_path, Inr (JList [JObj [(''trackName'', t), (''artistName'', a),
                                       (''endTime'', e), (''msPlayed'', m)]]))]
      = [JObj [(''trackName'', t), (''artistName'', a), (''albumName'', JStr ''''),
               (''endTime'', e), (''msPlayed'', m)]])"
proof
  show "\<forall>r\<in>set (create_safe_streaming_history streaming_files).
      safe_record_of (source_entries streaming_files) r"
    using foldl_safe_sound [of _ "[]" streaming_files]
    by (auto simp: create_safe_streaming_history_def)
  show "truthy t \<and> truthy a \<and> truthy e \<and> truthy m \<longrightarrow>
      create_safe_streaming_history
        [(file_path, Inr (JList [JObj [(''trackName'', t), (''artistName'', a),
                                       (''endTime'', e), (''msPlayed'', m)]]))]
      = [JObj [(''trackName'', t), (''artistName'', a), (''albumName'', JStr ''''),
               (''endTime'', e), (''msPlayed'', m)]]"
    by (simp add: create_safe_streaming_history_def safe_entry_def dict_get_def)
qed

theorem safe_streaming_records_witness:
  "create_safe_streaming_history
     [(''Spotify Account Data/StreamingHistory_music_0.json'',
       Inr (JList [JObj [(''trackName'', JStr ''A''), (''artistName'', JStr ''B''),
                         (''endTime'', JStr ''2024-01-01 12:00''), (''msPlayed'', JStr ''abc'')]]))]
   = [JObj [(''trackName'', JStr ''A''), (''artistName'', JStr ''B''), (''albumName'', JStr ''''),
            (''endTime'', JStr ''2024-01-01 12:00''), (''msPlayed'', JStr ''abc'')]] \<and>
   create_safe_streaming_history
     [(''Spotify Account Data/StreamingHistory_music_0.json'',
       Inr (JList [JObj [(''trackName'', JStr ''A''), (''artistName'', JStr ''B''),
                         (''endTime'', JStr ''2024-01-01 12:00''), (''msPlayed'', JInt (- 5))]]))]
   = [JObj [(''trackName'', JStr ''A''), (''artistName'', JStr ''B''), (''albumName'', JStr ''''),
            (''endTime'', JStr ''2024-01-01 12:00''), (''msPlayed'', JInt (- 5))]] \<and>
   safe_record_of
     [JObj [(''trackName'', JStr ''A''), (''artistName'', JStr ''B''),
            (''endTime'', JStr ''2024-01-01 12:00''), (''msPlayed'', JStr ''abc'')]]
     (JObj [(''trackName'', JStr ''A''), (''artistName'', JStr ''B''), (''albumName'', JStr ''''),
            (''endTime'', JStr ''2024-01-01 12:00''), (''msPlayed'', JStr ''abc'')])"
proof -
  let ?p = "''Spotify Account Data/StreamingHistory_music_0.json''"
  let ?e = "JObj [(''trackName'', JStr ''A''), (''artistName'', JStr ''B''),
                  (''endTime'', JStr ''2024-01-01 12:00''), (''msPlayed'', JStr ''abc'')]"
  note th1 = safe_streaming_records
    [of "[(?p, Inr (JList [?e]))]" "JStr ''A''" "JStr ''B''" "JStr ''2024-01-01 12:00''"
        "JStr ''abc''" ?p]
  note th2 = safe_streaming_records
    [of "[]" "JStr ''A''" "JStr ''B''" "JStr ''2024-01-01 12:00''" "JInt (- 5)" ?p]
  have c1: "create_safe_streaming_history [(?p, Inr (JList [?e]))]
    = [JObj [(''trackName'', JStr ''A''), (''artistName'', JStr ''B''), (''albumName'', JStr ''''),
            (''endTime'', JStr ''2024-01-01 12:00''), (''msPlayed'', JStr ''abc'')]]"
    using th1 by simp
  have s: "source_entries [(?p, Inr (JList [?e]))] = [?e]"
    by (simp add: source_entries_def)
  from th1 have "\<forall>r\<in>set (create_safe_streaming_history [(?p, Inr (JList [?e]))]).
      safe_record_of (source_entries [(?p, Inr (JList [?e]))]) r" by (rule conjunct1)
  then have c3: "safe_record_of [?e]
     (JObj [(''trackName'', JStr ''A''), (''artistName'', JStr ''B''), (''albumName'', JStr ''''),
            (''endTime'', JStr ''2024-01-01 12:00''), (''msPlayed'', JStr ''abc'')])"
    unfolding c1 s by simp
  from th2 c1 c3 show ?thesis by simp
qed

section \<open>Privacy Scanner: properties\<close>

text \<open>
  One call of \<^verbatim>\<open>analyze_file\<close> appends the path to \<^verbatim>\<open>safe_files\<close> when the file was read
  and no issue was found, and an entry to \<^verbatim>\<open>risky_files\<close> otherwise; the counter is
  incremented only at the end of the \<^verbatim>\<open>try\<close> body, that is for the files that were read.
\<close>

lemma analyze_file_step:
  "safe_files (analyze_file res f) = safe_files res @ (if is_safe f then [fst f] else [])"
  "risky_files (analyze_file res f) = risky_files res @ (if is_safe f then [] else [risky_entry f])"
  "files_analyzed (analyze_file res f) = files_analyzed res + (if parsed f then 1 else 0)"
proof -
  obtain p c where f: "f = (p, c)" by (cases f)
  show "safe_files (analyze_file res f) = safe_files res @ (if is_safe f then [fst f] else [])"
    by (cases c) (simp_all add: f is_safe_def Let_def)
  show "risky_files (analyze_file res f) =
      risky_files res @ (if is_safe f then [] else [risky_entry f])"
    by (cases c) (simp_all add: f is_safe_def risky_entry_def Let_def)
  show "files_analyzed (analyze_file res f) = files_analyzed res + (if parsed f then 1 else 0)"
    by (cases c) (simp_all add: f parsed_def Let_def)
qed

lemma foldl_analyze_file:
  "safe_files (foldl analyze_file res fs) = safe_files res @ map fst (filter is_safe fs)"
  "risky_files (foldl analyze_file res fs) =
     risky_files res @ map risky_entry (filter (\<lambda>f. \<not> is_safe f) fs)"
  "files_analyzed (foldl analyze_file res fs) = files_analyzed res + length (filter parsed fs)"
  by (induction fs arbitrary: res) (simp_all add: analyze_file_step)

lemma fst_risky_entry: "fst (risky_entry f) = fst f"
  by (cases f) (simp add: risky_entry_def split: sum.splits)

lemma scan_lists:
  "safe_files (analyze_all_files fs init_results) = map fst (filter is_safe fs)"
  "risky_files (analyze_all_files fs init_results) = map risky_entry (filter (\<lambda>f. \<not> is_safe f) fs)"
  "files_analyzed (analyze_all_files fs init_results) = length (filter parsed fs)"
  by (simp_all add: analyze_all_files_def foldl_analyze_file init_results_def)

lemma risky_paths:
  "fst ` set (risky_files (analyze_all_files fs init_results)) = fst ` {f \<in> set fs. \<not> is_safe f}"
  by (simp add: scan_lists image_image fst_risky_entry)

text \<open>
  Claim C5, as stated: after a full run the safe and the risky files are disjoint, their
  union is the set of files analyzed, a file is risky if and only if the analysis steps
  produced at least one issue for it, and so
  \<^verbatim>\<open>len(safe_files) + len(risky_files)\<close> equals \<^verbatim>\<open>files_analyzed\<close>.

  This does not hold for a file that cannot be read: the \<^verbatim>\<open>except\<close> branch of
  \<^verbatim>\<open>analyze_file\<close> appends it to \<^verbatim>\<open>risky_files\<close> with the single issue
  \<^verbatim>\<open>Error reading file\<close>, although no analysis step ran on it, and leaves
  \<^verbatim>\<open>files_analyzed\<close> as it was. With one such file the two lists hold one entry together
  and the counter is 0.
\<close>

theorem unreadable_file_is_risky_counterexample:
  "analyze_all_files [(''Spotify Account Data/Broken.json'', Inl ValueError)] init_results
   = \<lparr>files_analyzed = 0, sensitive_data_found = [], safe_files = [],
      risky_files = [(''Spotify Account Data/Broken.json'', [ErrorReading ValueError])]\<rparr> \<and>
   length (safe_files (analyze_all_files
       [(''Spotify Account Data/Broken.json'', Inl ValueError)] init_results)) +
   length (risky_files (analyze_all_files
       [(''Spotify Account Data/Broken.json'', Inl ValueError)] init_results)) = 1 \<and>
   files_analyzed (analyze_all_files
       [(''Spotify Account Data/Broken.json'', Inl ValueError)] init_results) = 0"
  by (simp add: analyze_all_files_def init_results_def)

text \<open>
  Claim C5, amended: when every path is visited once (the three directories are globbed
  once each), after a full run from the initial results
  \<^item> no path is both in \<^verbatim>\<open>safe_files\<close> and in \<^verbatim>\<open>risky_files\<close>;
  \<^item> the paths of the two lists together are the paths of all files visited;
  \<^item> a file that was read is in \<^verbatim>\<open>risky_files\<close> if and only if the analysis of its path
    and content produced at least one issue;
  \<^item> a file that could not be read is in \<^verbatim>\<open>risky_files\<close> with the one issue that reports
    the error;
  \<^item> \<^verbatim>\<open>len(safe_files) + len(risky_files)\<close> equals \<^verbatim>\<open>files_analyzed\<close> plus the number of
    files that could not be read.
\<close>

theorem scanner_partition:
  assumes d: "distinct (map fst json_files)"
  shows
    "set (safe_files (analyze_all_files json_files init_results)) \<inter>
       fst ` set (risky_files (analyze_all_files json_files init_results)) = {} \<and>
     set (safe_files (analyze_all_files json_files init_results)) \<union>
       fst ` set (risky_files (analyze_all_files json_files init_results)) = fst ` set json_files \<and>
     (\<forall>p data. (p, Inr data) \<in> set json_files \<longrightarrow>
        (p \<in> fst ` set (risky_files (analyze_all_files json_files init_results))
           \<longleftrightarrow> file_issues p data \<noteq> [])) \<and>
     (\<forall>p err. (p, Inl err) \<in> set json_files \<longrightarrow>
        (p, [ErrorReading err]) \<in> set (risky_files (analyze_all_files json_files init_results))) \<and>
     length (safe_files (analyze_all_files json_files init_results)) +
       length (risky_files (analyze_all_files json_files init_results)) =
     files_analyzed (analyze_all_files json_files init_results) +
       length (filter (\<lambda>f. \<not> parsed f) json_files)"
proof -
  let ?R = "analyze_all_files json_files init_results"
  have inj: "inj_on fst (set json_files)"
    using d by (simp add: distinct_map)
  have safe: "set (safe_files ?R) = fst ` {f \<in> set json_files. is_safe f}"
    by (simp add: scan_lists)
  have risky: "fst ` set (risky_files ?R) = fst ` {f \<in> set json_files. \<not> is_safe f}"
    by (rule risky_paths)
  have disj: "set (safe_files ?R) \<inter> fst ` set (risky_files ?R) = {}"
  proof -
    have "fst ` {f \<in> set json_files. is_safe f} \<inter> fst ` {f \<in> set json_files. \<not> is_safe f}
        = fst ` ({f \<in> set json_files. is_safe f} \<inter> {f \<in> set json_files. \<not> is_safe f})"
      by (rule inj_on_image_Int [OF inj, symmetric]) auto
    also have "\<dots> = {}" by auto
    finally show ?thesis by (simp only: safe risky)
  qed
  have un: "set (safe_files ?R) \<union> fst ` set (risky_files ?R) = fst ` set json_files"
    unfolding safe risky by (subst image_Un [symmetric]) (rule arg_cong [where f = "(`) fst"], auto)
  have iff: "\<forall>p data. (p, Inr data) \<in> set json_files \<longrightarrow>
        (p \<in> fst ` set (risky_files ?R) \<longleftrightarrow> file_issues p data \<noteq> [])"
  proof (intro allI impI)
    fix p data
    assume m: "(p, Inr data) \<in> set json_files"
    show "p \<in> fst ` set (risky_files ?R) \<longleftrightarrow> file_issues p data \<noteq> []"
    proof
      assume "p \<in> fst ` set (risky_files ?R)"
      then obtain f where f: "f \<in> set json_files" "\<not> is_safe f" "fst f = p"
        unfolding risky by auto
      have "fst f = fst (p, Inr data :: pyerror + json)" using f(3) by simp
      from inj this f(1) m have "f = (p, Inr data)" by (rule inj_onD)
      with f show "file_issues p data \<noteq> []" by (simp add: is_safe_def)
    next
      assume "file_issues p data \<noteq> []"
      then have "\<not> is_safe (p, Inr data)" by (simp add: is_safe_def)
      with m show "p \<in> fst ` set (risky_files ?R)" unfolding risky by force
    qed
  qed
  have err: "\<forall>p err. (p, Inl err) \<in> set json_files \<longrightarrow>
        (p, [ErrorReading err]) \<in> set (risky_files ?R)"
  proof (intro allI impI)
    fix p err
    assume m: "(p, Inl err) \<in> set json_files"
    have "\<not> is_safe (p, Inl err)" by (simp add: is_safe_def)
    moreover have "risky_entry (p, Inl err) = (p, [ErrorReading err])" by (simp add: risky_entry_def)
    ultimately show "(p, [ErrorReading err]) \<in> set (risky_files ?R)"
      using m by (force simp: scan_lists)
  qed
  have safe_parsed: "\<And>f. is_safe f \<Longrightarrow> parsed f"
    by (simp add: is_safe_def parsed_def split: sum.splits)
  have len: "length (safe_files ?R) + length (risky_files ?R) =
     files_analyzed ?R + length (filter (\<lambda>f. \<not> parsed f) json_files)"
  proof -
    have "length (filter is_safe json_files) + length (filter (\<lambda>f. \<not> is_safe f) json_files)
        = length json_files"
      by (rule sum_length_filter_compl)
    moreover have "length (filter parsed json_files) + length (filter (\<lambda>f. \<not> parsed f) json_files)
        = length json_files"
      by (rule sum_length_filter_compl)
    ultimately show ?thesis by (simp add: scan_lists)
  qed
  from disj un iff err len show ?thesis by (intro conjI)
qed

text \<open>
  The theorem at a run over three files: one that is read and has no issue, one that
  cannot be read, and one with a field named \<^verbatim>\<open>ip_addr\<close>.
\<close>

lemma analyze_all_files_example:
  "analyze_all_files
     [(''Spotify Account Data/Marquee.json'', Inr (JList [])),
      (''Spotify Account Data/Broken.json'', Inl ValueError),
      (''Spotify Account Data/Userdata.json'', Inr (JObj [(''ip_addr'', JStr ''x'')]))]
     init_results
   = \<lparr>files_analyzed = 2,
      sensitive_data_found =
        [(''Spotify Account Data/Userdata.json'',
          [FieldMatches ''ip_addr'' ''Userdata.json'' ''high_risk'' ''ip_addr''])],
      safe_files = [''Spotify Account Data/Marquee.json''],
      risky_files =
        [(''Spotify Account Data/Broken.json'', [ErrorReading ValueError]),
         (''Spotify Account Data/Userdata.json'',
          [FieldMatches ''ip_addr'' ''Userdata.json'' ''high_risk'' ''ip_addr''])]\<rparr>"
  by code_simp

theorem scanner_partition_witness:
  "distinct (map fst
     [(''Spotify Account Data/Marquee.json'', Inr (JList [])),
      (''Spotify Account Data/Broken.json'', Inl ValueError),
      (''Spotify Account Data/Userdata.json'', Inr (JObj [(''ip_addr'', JStr ''x'')]))]) \<and>
   set [''Spotify Account Data/Marquee.json''] \<inter>
     fst ` set [(''Spotify Account Data/Broken.json'', [ErrorReading ValueError]),
                (''Spotify Account Data/Userdata.json'',
                 [FieldMatches ''ip_addr'' ''Userdata.json'' ''high_risk'' ''ip_addr''])] = {} \<and>
   file_issues ''Spotify Account Data/Userdata.json'' (JObj [(''ip_addr'', JStr ''x'')]) \<noteq> [] \<and>
   file_issues ''Spotify Account Data/Marquee.json'' (JList []) = [] \<and>
   length [''Spotify Account Data/Marquee.json''] +
     length [(''Spotify Account Data/Broken.json'', [ErrorReading ValueError]),
             (''Spotify Account Data/Userdata.json'',
              [FieldMatches ''ip_addr'' ''Userdata.json'' ''high_risk'' ''ip_addr''])]
   = 2 + length (filter (\<lambda>f. \<not> parsed f)
     [(''Spotify Account Data/Marquee.json'', Inr (JList [])),
      (''Spotify Account Data/Broken.json'', Inl ValueError),
      (''Spotify Account Data/Userdata.json'', Inr (JObj [(''ip_addr'', JStr ''x'')]))])"
proof -
  let ?F = "[(''Spotify Account Data/Marquee.json'', Inr (JList [])),
      (''Spotify Account Data/Broken.json'', Inl ValueError),
      (''Spotify Account Data/Userdata.json'', Inr (JObj [(''ip_addr'', JStr ''x'')]))]"
  have d: "distinct (map fst ?F)" by simp
  note th = scanner_partition [OF d]
  note ex = analyze_all_files_example
  from th have i: "set (safe_files (analyze_all_files ?F init_results)) \<inter>
       fst ` set (risky_files (analyze_all_files ?F init_results)) = {}" by (rule conjunct1)
  from th have r: "\<forall>p data. (p, Inr data) \<in> set ?F \<longrightarrow>
        (p \<in> fst ` set (risky_files (analyze_all_files ?F init_results))
           \<longleftrightarrow> file_issues p data \<noteq> [])"
    by (elim conjE)
  from th have n: "length (safe_files (analyze_all_files ?F init_results)) +
       length (risky_files (analyze_all_files ?F init_results)) =
     files_analyzed (analyze_all_files ?F init_results) +
       length (filter (\<lambda>f. \<not> parsed f) ?F)"
    by (elim conjE)
  from r have u: "file_issues ''Spotify Account Data/Userdata.json'' (JObj [(''ip_addr'', JStr ''x'')]) \<noteq> []"
    unfolding ex by simp
  from r have m: "file_issues ''Spotify Account Data/Marquee.json'' (JList []) = []"
    unfolding ex by simp
  from d i n u m show ?thesis unfolding ex by simp
qed

end
